theory Spec2Isabelle
  imports Complex_Main "HOL-Library.Multiset"
begin

section \<open>Numbers\<close>

text \<open>
  JavaScript numbers are modelled as exact rationals: the rounding error of IEEE doubles,
  \<open>NaN\<close> and the infinities are outside the model. \<open>Math.round\<close> rounds to the
  nearest integer, a half going up.
\<close>

definition Math_round :: "rat \<Rightarrow> int" where
  "Math_round x = \<lfloor>x + 1 / 2\<rfloor>"

definition is_integer :: "rat \<Rightarrow> bool" where
  "is_integer x = (rat_of_int \<lfloor>x\<rfloor> = x)"

text \<open>
  The schema library's \<open>int()\<close> check (the version whose messages the repository's tests
  expect) accepts the integers between \<open>Number.MIN_SAFE_INTEGER\<close> and
  \<open>Number.MAX_SAFE_INTEGER\<close>.
\<close>

definition MAX_SAFE_INTEGER :: rat where
  "MAX_SAFE_INTEGER = 9007199254740991"

definition isSafeInteger :: "rat \<Rightarrow> bool" where
  "isSafeInteger x = (is_integer x \<and> - MAX_SAFE_INTEGER \<le> x \<and> x \<le> MAX_SAFE_INTEGER)"

section \<open>The BMI calculator (client/src/components/BMICalculator.tsx)\<close>

definition ACTIVITY_MULTIPLIERS :: "(string \<times> rat) list" where
  "ACTIVITY_MULTIPLIERS =
     [(''sedentary'', 12 / 10),
      (''light'', 1375 / 1000),
      (''moderate'', 155 / 100),
      (''active'', 1725 / 1000),
      (''veryActive'', 19 / 10)]"

record macros =
  m_protein :: int
  m_carbs :: int
  m_fats :: int

text \<open>The three ratios chosen by \<open>calculateMacros\<close>: protein, carbohydrate, fat.\<close>

definition macroRatios :: "string \<Rightarrow> rat \<times> rat \<times> rat" where
  "macroRatios goal =
     (if goal = ''lose'' then (35 / 100, 4 / 10, 25 / 100)
      else if goal = ''gain'' then (3 / 10, 5 / 10, 2 / 10)
      else (3 / 10, 45 / 100, 25 / 100))"

definition calculateMacros :: "rat \<Rightarrow> string \<Rightarrow> macros" where
  "calculateMacros calories goal =
     (case macroRatios goal of (proteinRatio, carbRatio, fatRatio) \<Rightarrow>
        \<lparr> m_protein = Math_round ((calories * proteinRatio) / 4),
          m_carbs = Math_round ((calories * carbRatio) / 4),
          m_fats = Math_round ((calories * fatRatio) / 9) \<rparr>)"

datatype gender = male | female | other

definition bmrOf :: "gender \<Rightarrow> rat \<Rightarrow> rat \<Rightarrow> int \<Rightarrow> rat" where
  "bmrOf g w h a =
     (if g = male then 10 * w + (625 / 100) * h - 5 * rat_of_int a + 5
      else 10 * w + (625 / 100) * h - 5 * rat_of_int a - 161)"

text \<open>
  \<open>ACTIVITY_MULTIPLIERS[activityLevel] || 1.55\<close>: the table's entry, or 1.55 for a level
  the table does not hold. The form offers the five levels of the table; property names
  that a JavaScript object inherits (such as \<open>constructor\<close>) are outside the model.
\<close>

definition activityMultiplier :: "string \<Rightarrow> rat" where
  "activityMultiplier activityLevel =
     (case map_of ACTIVITY_MULTIPLIERS activityLevel of Some m \<Rightarrow> m | None \<Rightarrow> 155 / 100)"

definition adjustCalories :: "string \<Rightarrow> rat \<Rightarrow> rat" where
  "adjustCalories goal tdeeValue =
     (if goal = ''lose'' then tdeeValue * (85 / 100)
      else if goal = ''gain'' then tdeeValue * (11 / 10)
      else tdeeValue)"

text \<open>What \<open>calculateBMI\<close> hands to \<open>onCalculate\<close>, with the adjusted calories before rounding.\<close>

record bmi_result =
  r_height :: rat
  r_weight :: rat
  r_age :: int
  r_gender :: gender
  r_activityLevel :: string
  r_adjustedCalories :: rat
  r_dailyCalories :: int
  r_dailyProtein :: int
  r_dailyCarbs :: int
  r_dailyFats :: int

text \<open>
  \<open>calculateBMI\<close> after the form fields are parsed: \<open>h\<close>, \<open>w\<close> from \<open>parseFloat\<close>,
  \<open>a\<close> from \<open>parseInt\<close>. A non-positive value ends the handler with an alert: \<open>None\<close>.
\<close>

definition calculateBMI ::
  "rat \<Rightarrow> rat \<Rightarrow> int \<Rightarrow> gender \<Rightarrow> string \<Rightarrow> string \<Rightarrow> bmi_result option" where
  "calculateBMI h w a g activityLevel goal =
     (if h \<le> 0 \<or> w \<le> 0 \<or> a \<le> 0 then None
      else
        let bmr = bmrOf g w h a;
            multiplier = activityMultiplier activityLevel;
            tdeeValue = bmr * multiplier;
            adjustedCalories = adjustCalories goal tdeeValue;
            ms = calculateMacros adjustedCalories goal
        in Some \<lparr> r_height = h, r_weight = w, r_age = a, r_gender = g,
                  r_activityLevel = activityLevel,
                  r_adjustedCalories = adjustedCalories,
                  r_dailyCalories = Math_round adjustedCalories,
                  r_dailyProtein = m_protein ms,
                  r_dailyCarbs = m_carbs ms,
                  r_dailyFats = m_fats ms \<rparr>)"

section \<open>Dates\<close>

text \<open>
  A JavaScript \<open>Date\<close> is its number of milliseconds since the epoch. The server's time
  zone is not part of the repository; it enters as a parameter, in the two forms in which
  the language definition uses it: the offset of local time from UTC in force at a UTC
  instant, and the offset to use for a local wall-clock value (at a transition, the offset
  before it). \<open>LocalTime\<close> and \<open>UTC\<close> convert between the two scales.
\<close>

type_synonym date = int

record zone =
  utcOffset :: "date \<Rightarrow> int"
  localOffset :: "int \<Rightarrow> int"

definition LocalTime :: "zone \<Rightarrow> date \<Rightarrow> int" where
  "LocalTime z t = t + utcOffset z t"

definition UTC :: "zone \<Rightarrow> int \<Rightarrow> date" where
  "UTC z lt = lt - localOffset z lt"

text \<open>
  \<open>setHours(h, m, s, ms)\<close>: take the date to local time, keep its calendar day, replace the
  time within the day, and go back to UTC.
\<close>

definition setHours :: "zone \<Rightarrow> date \<Rightarrow> int \<Rightarrow> int \<Rightarrow> int \<Rightarrow> int \<Rightarrow> date" where
  "setHours z t h m sec ms =
     UTC z (LocalTime z t - LocalTime z t mod 86400000
            + (h * 3600000 + m * 60000 + sec * 1000 + ms))"

text \<open>
  The two dates that the database functions derive from a given one:
  \<open>setHours(0, 0, 0, 0)\<close> and \<open>setHours(23, 59, 59, 999)\<close>.
\<close>

definition startOfDay :: "zone \<Rightarrow> date \<Rightarrow> date" where
  "startOfDay z d = setHours z d 0 0 0 0"

definition endOfDay :: "zone \<Rightarrow> date \<Rightarrow> date" where
  "endOfDay z d = setHours z d 23 59 59 999"

text \<open>A zone whose offset never changes, and UTC itself.\<close>

definition fixedZone :: "int \<Rightarrow> zone" where
  "fixedZone c = \<lparr> utcOffset = (\<lambda>t. c), localOffset = (\<lambda>lt. c) \<rparr>"

definition utcZone :: zone where
  "utcZone = fixedZone 0"


section \<open>The tables (drizzle/schema.ts)\<close>

datatype meal_time = morning | noon | evening | lateNight

datatype food_source = src_manual | src_image | src_barcode

datatype activity_level = sedentary | light | moderate | active | veryActive

record food_entry =
  fe_id :: int
  fe_userId :: int
  fe_foodName :: string
  fe_mealTime :: meal_time
  fe_calories :: int
  fe_protein :: rat
  fe_carbs :: rat
  fe_fats :: rat
  fe_quantity :: "rat option"
  fe_unit :: "string option"
  fe_imageUrl :: "string option"
  fe_barcode :: "string option"
  fe_source :: food_source
  fe_createdAt :: date
  fe_updatedAt :: date
  fe_date :: date

text \<open>\<open>InsertFoodEntry\<close>, as the router builds it: no id and no timestamps.\<close>

record insert_food_entry =
  ife_userId :: int
  ife_foodName :: string
  ife_mealTime :: meal_time
  ife_calories :: int
  ife_protein :: rat
  ife_carbs :: rat
  ife_fats :: rat
  ife_quantity :: "rat option"
  ife_unit :: "string option"
  ife_imageUrl :: "string option"
  ife_barcode :: "string option"
  ife_source :: food_source
  ife_date :: date

record daily_summary =
  ds_id :: int
  ds_userId :: int
  ds_date :: date
  ds_totalCalories :: "int option"
  ds_totalProtein :: "rat option"
  ds_totalCarbs :: "rat option"
  ds_totalFats :: "rat option"
  ds_createdAt :: date
  ds_updatedAt :: date

record user_goals =
  ug_id :: int
  ug_userId :: int
  ug_height :: "rat option"
  ug_weight :: "rat option"
  ug_age :: "rat option"
  ug_gender :: "gender option"
  ug_activityLevel :: "activity_level option"
  ug_dailyCalories :: "int option"
  ug_dailyProtein :: "rat option"
  ug_dailyCarbs :: "rat option"
  ug_dailyFats :: "rat option"
  ug_createdAt :: date
  ug_updatedAt :: date

text \<open>
  The database: the three tables in insertion order, the auto-increment counters and the
  database clock that \<open>defaultNow()\<close> and \<open>onUpdateNow()\<close> read.
\<close>

record store =
  foodEntries :: "food_entry list"
  dailySummary :: "daily_summary list"
  userGoals :: "user_goals list"
  nextFoodEntryId :: int
  nextDailySummaryId :: int
  nextUserGoalsId :: int
  now :: date

text \<open>What \<open>getDb()\<close> returns: \<open>None\<close> when no database is configured or reachable.\<close>

type_synonym db = "store option"

datatype error =
    DatabaseNotAvailable
  | ValidationError
  | LLMInvokeError
  | NoResponseFromLLM
  | JSONSyntaxError
  | NoValuesToSet

section \<open>The database functions (server/db.ts)\<close>

text \<open>
  Every function first asks for the database and throws \<open>Database not available\<close> without
  it. A query is the table filtered by its \<open>where\<close> clause; an insert appends a row with the
  next id and the column defaults; an update overwrites the columns that the \<open>set\<close> object
  holds, and \<open>onUpdateNow()\<close> stamps \<open>updatedAt\<close> when the row changed. The ORM and the
  database server are not part of the repository: a \<open>select\<close> without \<open>orderBy\<close> reads the
  table in insertion order, \<open>orderBy\<close> keeps rows of equal key in that order, and numbers
  are stored as they are given. The ORM's \<open>set\<close> throws \<open>No values to set\<close> for an object
  that holds no value, before any row is looked at.
\<close>

definition newFoodEntry :: "store \<Rightarrow> insert_food_entry \<Rightarrow> food_entry" where
  "newFoodEntry s entry =
     \<lparr> fe_id = nextFoodEntryId s,
       fe_userId = ife_userId entry,
       fe_foodName = ife_foodName entry,
       fe_mealTime = ife_mealTime entry,
       fe_calories = ife_calories entry,
       fe_protein = ife_protein entry,
       fe_carbs = ife_carbs entry,
       fe_fats = ife_fats entry,
       fe_quantity = (case ife_quantity entry of None \<Rightarrow> Some 1 | Some q \<Rightarrow> Some q),
       fe_unit = (case ife_unit entry of None \<Rightarrow> Some ''serving'' | Some u \<Rightarrow> Some u),
       fe_imageUrl = ife_imageUrl entry,
       fe_barcode = ife_barcode entry,
       fe_source = ife_source entry,
       fe_createdAt = now s,
       fe_updatedAt = now s,
       fe_date = ife_date entry \<rparr>"

text \<open>\<open>addFoodEntry\<close> returns the insert's result header: here the new row's id.\<close>

definition addFoodEntry :: "db \<Rightarrow> insert_food_entry \<Rightarrow> error + (int \<times> store)" where
  "addFoodEntry d entry =
     (case d of
        None \<Rightarrow> Inl DatabaseNotAvailable
      | Some s \<Rightarrow>
          Inr (nextFoodEntryId s,
               s\<lparr> foodEntries := foodEntries s @ [newFoodEntry s entry],
                  nextFoodEntryId := nextFoodEntryId s + 1 \<rparr>))"

definition inDay :: "zone \<Rightarrow> int \<Rightarrow> date \<Rightarrow> food_entry \<Rightarrow> bool" where
  "inDay tz userId d e =
     (fe_userId e = userId \<and> startOfDay tz d \<le> fe_date e \<and> fe_date e \<le> endOfDay tz d)"

definition getFoodEntriesByDate :: "zone \<Rightarrow> db \<Rightarrow> int \<Rightarrow> date \<Rightarrow> error + food_entry list" where
  "getFoodEntriesByDate tz d userId dt =
     (case d of
        None \<Rightarrow> Inl DatabaseNotAvailable
      | Some s \<Rightarrow> Inr (sort_key fe_createdAt (filter (inDay tz userId dt) (foodEntries s))))"

definition deleteFoodEntry :: "db \<Rightarrow> int \<Rightarrow> int \<Rightarrow> error + store" where
  "deleteFoodEntry d i userId =
     (case d of
        None \<Rightarrow> Inl DatabaseNotAvailable
      | Some s \<Rightarrow>
          Inr (s\<lparr> foodEntries :=
                  filter (\<lambda>e. \<not> (fe_id e = i \<and> fe_userId e = userId)) (foodEntries s) \<rparr>))"

text \<open>
  \<open>Partial<InsertFoodEntry>\<close> as the router can send it: every field of the add schema,
  each optional. The type parameter is the type of \<open>calories\<close>: a number in the request,
  an integer once the schema has accepted it.
\<close>

record 'c food_fields =
  ff_foodName :: "string option"
  ff_mealTime :: "meal_time option"
  ff_calories :: "'c option"
  ff_protein :: "rat option"
  ff_carbs :: "rat option"
  ff_fats :: "rat option"
  ff_quantity :: "rat option"
  ff_unit :: "string option"
  ff_imageUrl :: "string option"
  ff_barcode :: "string option"
  ff_source :: "food_source option"
  ff_date :: "date option"

definition orElse :: "'a option \<Rightarrow> 'a \<Rightarrow> 'a" where
  "orElse x y = (case x of None \<Rightarrow> y | Some v \<Rightarrow> v)"

definition orKeep :: "'a option \<Rightarrow> 'a option \<Rightarrow> 'a option" where
  "orKeep x y = (case x of None \<Rightarrow> y | Some v \<Rightarrow> Some v)"

definition setFoodFields :: "int food_fields \<Rightarrow> food_entry \<Rightarrow> food_entry" where
  "setFoodFields f e =
     e\<lparr> fe_foodName := orElse (ff_foodName f) (fe_foodName e),
        fe_mealTime := orElse (ff_mealTime f) (fe_mealTime e),
        fe_calories := orElse (ff_calories f) (fe_calories e),
        fe_protein := orElse (ff_protein f) (fe_protein e),
        fe_carbs := orElse (ff_carbs f) (fe_carbs e),
        fe_fats := orElse (ff_fats f) (fe_fats e),
        fe_quantity := orKeep (ff_quantity f) (fe_quantity e),
        fe_unit := orKeep (ff_unit f) (fe_unit e),
        fe_imageUrl := orKeep (ff_imageUrl f) (fe_imageUrl e),
        fe_barcode := orKeep (ff_barcode f) (fe_barcode e),
        fe_source := orElse (ff_source f) (fe_source e),
        fe_date := orElse (ff_date f) (fe_date e) \<rparr>"

definition updateFoodRow :: "date \<Rightarrow> int food_fields \<Rightarrow> food_entry \<Rightarrow> food_entry" where
  "updateFoodRow t f e =
     (let e' = setFoodFields f e in if e' = e then e else e'\<lparr> fe_updatedAt := t \<rparr>)"

text \<open>An object of food fields that holds no value.\<close>

definition noFoodValues :: "'c food_fields \<Rightarrow> bool" where
  "noFoodValues f =
     (ff_foodName f = None \<and> ff_mealTime f = None \<and> ff_calories f = None
      \<and> ff_protein f = None \<and> ff_carbs f = None \<and> ff_fats f = None
      \<and> ff_quantity f = None \<and> ff_unit f = None \<and> ff_imageUrl f = None
      \<and> ff_barcode f = None \<and> ff_source f = None \<and> ff_date f = None)"

definition updateFoodEntry :: "db \<Rightarrow> int \<Rightarrow> int \<Rightarrow> int food_fields \<Rightarrow> error + store" where
  "updateFoodEntry d i userId f =
     (case d of
        None \<Rightarrow> Inl DatabaseNotAvailable
      | Some s \<Rightarrow>
          if noFoodValues f then Inl NoValuesToSet
          else
            Inr (s\<lparr> foodEntries :=
                    map (\<lambda>e. if fe_id e = i \<and> fe_userId e = userId
                              then updateFoodRow (now s) f e else e)
                        (foodEntries s) \<rparr>))"

definition getDailySummary :: "zone \<Rightarrow> db \<Rightarrow> int \<Rightarrow> date \<Rightarrow> error + daily_summary option" where
  "getDailySummary tz d userId dt =
     (case d of
        None \<Rightarrow> Inl DatabaseNotAvailable
      | Some s \<Rightarrow>
          Inr (find (\<lambda>r. ds_userId r = userId \<and> ds_date r = startOfDay tz dt) (dailySummary s)))"

record totals =
  totalCalories :: "int option"
  totalProtein :: "rat option"
  totalCarbs :: "rat option"
  totalFats :: "rat option"

definition setTotals :: "date \<Rightarrow> totals \<Rightarrow> daily_summary \<Rightarrow> daily_summary" where
  "setTotals t ts r =
     (let r' = r\<lparr> ds_totalCalories := orKeep (totalCalories ts) (ds_totalCalories r),
                   ds_totalProtein := orKeep (totalProtein ts) (ds_totalProtein r),
                   ds_totalCarbs := orKeep (totalCarbs ts) (ds_totalCarbs r),
                   ds_totalFats := orKeep (totalFats ts) (ds_totalFats r) \<rparr>
      in if r' = r then r else r'\<lparr> ds_updatedAt := t \<rparr>)"

definition upsertDailySummary :: "zone \<Rightarrow> db \<Rightarrow> int \<Rightarrow> date \<Rightarrow> totals \<Rightarrow> error + store" where
  "upsertDailySummary tz d userId dt ts =
     (case d of
        None \<Rightarrow> Inl DatabaseNotAvailable
      | Some s \<Rightarrow>
          (case getDailySummary tz d userId dt of
             Inl err \<Rightarrow> Inl err
           | Inr (Some existing) \<Rightarrow>
               if totalCalories ts = None \<and> totalProtein ts = None
                  \<and> totalCarbs ts = None \<and> totalFats ts = None
               then Inl NoValuesToSet
               else
                 Inr (s\<lparr> dailySummary :=
                         map (\<lambda>r. if ds_id r = ds_id existing
                                   then setTotals (now s) ts r else r)
                             (dailySummary s) \<rparr>)
           | Inr None \<Rightarrow>
               Inr (s\<lparr> dailySummary := dailySummary s @
                         [\<lparr> ds_id = nextDailySummaryId s,
                            ds_userId = userId,
                            ds_date = startOfDay tz dt,
                            ds_totalCalories = Some (orElse (totalCalories ts) 0),
                            ds_totalProtein = Some (orElse (totalProtein ts) 0),
                            ds_totalCarbs = Some (orElse (totalCarbs ts) 0),
                            ds_totalFats = Some (orElse (totalFats ts) 0),
                            ds_createdAt = now s,
                            ds_updatedAt = now s \<rparr>],
                      nextDailySummaryId := nextDailySummaryId s + 1 \<rparr>)))"

definition getUserGoals :: "db \<Rightarrow> int \<Rightarrow> error + user_goals option" where
  "getUserGoals d userId =
     (case d of
        None \<Rightarrow> Inl DatabaseNotAvailable
      | Some s \<Rightarrow> Inr (find (\<lambda>r. ug_userId r = userId) (userGoals s)))"






section \<open>The request schemas (server/routers/food.ts)\<close>

text \<open>
  A request body is an object whose fields may be missing. \<open>AddFoodEntrySchema\<close> wants
  the name, meal time, calories, macros, source and date, fills in the defaults of
  \<open>quantity\<close> and \<open>unit\<close>, and checks the bounds.
\<close>

record add_food_input =
  afi_foodName :: string
  afi_mealTime :: meal_time
  afi_calories :: int
  afi_protein :: rat
  afi_carbs :: rat
  afi_fats :: rat
  afi_quantity :: rat
  afi_unit :: string
  afi_imageUrl :: "string option"
  afi_barcode :: "string option"
  afi_source :: food_source
  afi_date :: date

definition AddFoodEntrySchema :: "rat food_fields \<Rightarrow> error + add_food_input" where
  "AddFoodEntrySchema f =
     (case (ff_foodName f, ff_mealTime f, ff_calories f, ff_protein f, ff_carbs f, ff_fats f,
            ff_source f, ff_date f) of
        (Some nm, Some mt, Some cal, Some p, Some c, Some ft, Some src, Some dt) \<Rightarrow>
          if 1 \<le> length nm \<and> isSafeInteger cal \<and> 0 \<le> cal \<and> 0 \<le> p \<and> 0 \<le> c \<and> 0 \<le> ft
          then Inr \<lparr> afi_foodName = nm, afi_mealTime = mt, afi_calories = \<lfloor>cal\<rfloor>,
                     afi_protein = p, afi_carbs = c, afi_fats = ft,
                     afi_quantity = orElse (ff_quantity f) 1,
                     afi_unit = orElse (ff_unit f) ''serving'',
                     afi_imageUrl = ff_imageUrl f, afi_barcode = ff_barcode f,
                     afi_source = src, afi_date = dt \<rparr>
          else Inl ValidationError
      | _ \<Rightarrow> Inl ValidationError)"

text \<open>A check on an optional field: a missing field passes.\<close>

definition optOk :: "('a \<Rightarrow> bool) \<Rightarrow> 'a option \<Rightarrow> bool" where
  "optOk P x = (case x of None \<Rightarrow> True | Some v \<Rightarrow> P v)"

text \<open>
  \<open>AddFoodEntrySchema.partial()\<close>: the same checks on the fields that are there. The
  defaults of \<open>quantity\<close> and \<open>unit\<close> stay in force, so the parsed object always holds
  these two.
\<close>

definition AddFoodEntrySchema_partial :: "rat food_fields \<Rightarrow> error + int food_fields" where
  "AddFoodEntrySchema_partial f =
     (if optOk (\<lambda>nm. 1 \<le> length nm) (ff_foodName f)
         \<and> optOk (\<lambda>cal. isSafeInteger cal \<and> 0 \<le> cal) (ff_calories f)
         \<and> optOk (\<lambda>p. 0 \<le> p) (ff_protein f)
         \<and> optOk (\<lambda>c. 0 \<le> c) (ff_carbs f)
         \<and> optOk (\<lambda>ft. 0 \<le> ft) (ff_fats f)
      then Inr \<lparr> ff_foodName = ff_foodName f, ff_mealTime = ff_mealTime f,
                 ff_calories = map_option floor (ff_calories f),
                 ff_protein = ff_protein f, ff_carbs = ff_carbs f, ff_fats = ff_fats f,
                 ff_quantity = Some (orElse (ff_quantity f) 1),
                 ff_unit = Some (orElse (ff_unit f) ''serving''),
                 ff_imageUrl = ff_imageUrl f, ff_barcode = ff_barcode f,
                 ff_source = ff_source f, ff_date = ff_date f \<rparr>
      else Inl ValidationError)"


section \<open>The nutrition estimator\<close>

text \<open>
  \<open>invokeLLM\<close> is an external call. What the procedures do with it depends on four
  outcomes only: the call throws, the first choice has no content, the content is not JSON,
  or it parses to an analysis object. The three lines after the call (read the content,
  throw \<open>No response from LLM\<close> when it is empty, \<open>JSON.parse\<close>) are \<open>readAnalysis\<close>.
\<close>

datatype 'a llm_reply = LLMThrows | LLMNoContent | LLMNotJson | LLMJson 'a

definition readAnalysis :: "'a llm_reply \<Rightarrow> error + 'a" where
  "readAnalysis r =
     (case r of
        LLMThrows \<Rightarrow> Inl LLMInvokeError
      | LLMNoContent \<Rightarrow> Inl NoResponseFromLLM
      | LLMNotJson \<Rightarrow> Inl JSONSyntaxError
      | LLMJson a \<Rightarrow> Inr a)"

record food_analysis =
  fa_foodName :: string
  fa_calories :: rat
  fa_protein :: rat
  fa_carbs :: rat
  fa_fats :: rat
  fa_quantity :: rat
  fa_unit :: string

record barcode_analysis =
  ba_foodName :: string
  ba_calories :: rat
  ba_protein :: rat
  ba_carbs :: rat
  ba_fats :: rat
  ba_servingSize :: rat
  ba_servingUnit :: string

record macro_calculation =
  mc_calories :: rat
  mc_protein :: rat
  mc_carbs :: rat
  mc_fats :: rat

section \<open>The procedures of \<open>foodRouter\<close>\<close>

text \<open>
  A procedure runs for the signed-in user \<open>uid\<close> (\<open>ctx.user.id\<close>) on the database \<open>d\<close>
  and returns its reply, or the error it throws, together with the database it leaves.
\<close>

text \<open>
  The accumulator of the \<open>reduce\<close> under \<open>// Update daily summary\<close>, a block that three
  procedures repeat: an object of four numbers, handed to \<open>upsertDailySummary\<close> whole.
\<close>

record plain_totals =
  pt_totalCalories :: int
  pt_totalProtein :: rat
  pt_totalCarbs :: rat
  pt_totalFats :: rat

definition zeroTotals :: plain_totals where
  "zeroTotals =
     \<lparr> pt_totalCalories = 0, pt_totalProtein = 0, pt_totalCarbs = 0, pt_totalFats = 0 \<rparr>"

definition addTotals :: "plain_totals \<Rightarrow> food_entry \<Rightarrow> plain_totals" where
  "addTotals acc e =
     \<lparr> pt_totalCalories = pt_totalCalories acc + fe_calories e,
       pt_totalProtein = pt_totalProtein acc + fe_protein e,
       pt_totalCarbs = pt_totalCarbs acc + fe_carbs e,
       pt_totalFats = pt_totalFats acc + fe_fats e \<rparr>"

definition asTotals :: "plain_totals \<Rightarrow> totals" where
  "asTotals p =
     \<lparr> totalCalories = Some (pt_totalCalories p), totalProtein = Some (pt_totalProtein p),
       totalCarbs = Some (pt_totalCarbs p), totalFats = Some (pt_totalFats p) \<rparr>"

definition updateDailySummary :: "zone \<Rightarrow> store \<Rightarrow> int \<Rightarrow> date \<Rightarrow> error + store" where
  "updateDailySummary tz s uid dt =
     (case getFoodEntriesByDate tz (Some s) uid dt of
        Inl err \<Rightarrow> Inl err
      | Inr entries \<Rightarrow>
          upsertDailySummary tz (Some s) uid dt (asTotals (foldl addTotals zeroTotals entries)))"

text \<open>The object \<open>{ userId: ctx.user.id, ...input }\<close> that \<open>addFood\<close> inserts.\<close>

definition withUserId :: "int \<Rightarrow> add_food_input \<Rightarrow> insert_food_entry" where
  "withUserId uid input =
     \<lparr> ife_userId = uid,
       ife_foodName = afi_foodName input,
       ife_mealTime = afi_mealTime input,
       ife_calories = afi_calories input,
       ife_protein = afi_protein input,
       ife_carbs = afi_carbs input,
       ife_fats = afi_fats input,
       ife_quantity = Some (afi_quantity input),
       ife_unit = Some (afi_unit input),
       ife_imageUrl = afi_imageUrl input,
       ife_barcode = afi_barcode input,
       ife_source = afi_source input,
       ife_date = afi_date input \<rparr>"

definition foodRouter_addFood ::
  "zone \<Rightarrow> db \<Rightarrow> int \<Rightarrow> rat food_fields \<Rightarrow> (error + int) \<times> db" where
  "foodRouter_addFood tz d uid raw =
     (case AddFoodEntrySchema raw of
        Inl err \<Rightarrow> (Inl err, d)
      | Inr input \<Rightarrow>
          (case addFoodEntry d (withUserId uid input) of
             Inl err \<Rightarrow> (Inl err, d)
           | Inr (entry, s1) \<Rightarrow>
               (case updateDailySummary tz s1 uid (afi_date input) of
                  Inl err \<Rightarrow> (Inl err, Some s1)
                | Inr s2 \<Rightarrow> (Inr entry, Some s2))))"

definition foodRouter_getFoodsByDate ::
  "zone \<Rightarrow> db \<Rightarrow> int \<Rightarrow> date \<Rightarrow> (error + food_entry list) \<times> db" where
  "foodRouter_getFoodsByDate tz d uid dt = (getFoodEntriesByDate tz d uid dt, d)"

record success_reply =
  success :: bool

definition foodRouter_deleteFood :: "db \<Rightarrow> int \<Rightarrow> int \<Rightarrow> (error + success_reply) \<times> db" where
  "foodRouter_deleteFood d uid i =
     (case deleteFoodEntry d i uid of
        Inl err \<Rightarrow> (Inl err, d)
      | Inr s1 \<Rightarrow> (Inr \<lparr> success = True \<rparr>, Some s1))"

definition foodRouter_updateFood ::
  "db \<Rightarrow> int \<Rightarrow> int \<Rightarrow> rat food_fields \<Rightarrow> (error + success_reply) \<times> db" where
  "foodRouter_updateFood d uid i raw =
     (case AddFoodEntrySchema_partial raw of
        Inl err \<Rightarrow> (Inl err, d)
      | Inr f \<Rightarrow>
          (case updateFoodEntry d i uid f of
             Inl err \<Rightarrow> (Inl err, d)
           | Inr s1 \<Rightarrow> (Inr \<lparr> success = True \<rparr>, Some s1)))"

text \<open>\<open>summary || {...}\<close>: the stored row, or the literal object of four zeros.\<close>

datatype summary_reply = SummaryRow daily_summary | SummaryLiteral plain_totals

definition foodRouter_getDailySummary ::
  "zone \<Rightarrow> db \<Rightarrow> int \<Rightarrow> date \<Rightarrow> (error + summary_reply) \<times> db" where
  "foodRouter_getDailySummary tz d uid dt =
     (case getDailySummary tz d uid dt of
        Inl err \<Rightarrow> (Inl err, d)
      | Inr (Some summary) \<Rightarrow> (Inr (SummaryRow summary), d)
      | Inr None \<Rightarrow>
          (Inr (SummaryLiteral \<lparr> pt_totalCalories = 0, pt_totalProtein = 0,
                                  pt_totalCarbs = 0, pt_totalFats = 0 \<rparr>), d))"

record 'a analysis_reply =
  ar_success :: bool
  ar_analysis :: 'a
  ar_entry :: int

text \<open>
  \<open>analyzeImage\<close>: the \<open>catch\<close> logs and rethrows, so every error of the body leaves the
  procedure as it is.
\<close>

definition foodRouter_analyzeImage ::
  "zone \<Rightarrow> db \<Rightarrow> int \<Rightarrow> string \<Rightarrow> meal_time \<Rightarrow> date \<Rightarrow> food_analysis llm_reply
     \<Rightarrow> (error + food_analysis analysis_reply) \<times> db" where
  "foodRouter_analyzeImage tz d uid imageUrl mealTime dt llm =
     (case readAnalysis llm of
        Inl err \<Rightarrow> (Inl err, d)
      | Inr analysis \<Rightarrow>
          (case addFoodEntry d
                  \<lparr> ife_userId = uid,
                    ife_foodName = fa_foodName analysis,
                    ife_mealTime = mealTime,
                    ife_calories = Math_round (fa_calories analysis),
                    ife_protein = fa_protein analysis,
                    ife_carbs = fa_carbs analysis,
                    ife_fats = fa_fats analysis,
                    ife_quantity = Some (fa_quantity analysis),
                    ife_unit = Some (fa_unit analysis),
                    ife_imageUrl = Some imageUrl,
                    ife_barcode = None,
                    ife_source = src_image,
                    ife_date = dt \<rparr> of
             Inl err \<Rightarrow> (Inl err, d)
           | Inr (entry, s1) \<Rightarrow>
               (case updateDailySummary tz s1 uid dt of
                  Inl err \<Rightarrow> (Inl err, Some s1)
                | Inr s2 \<Rightarrow>
                    (Inr \<lparr> ar_success = True, ar_analysis = analysis, ar_entry = entry \<rparr>,
                     Some s2))))"

definition foodRouter_analyzeBarcode ::
  "zone \<Rightarrow> db \<Rightarrow> int \<Rightarrow> string \<Rightarrow> meal_time \<Rightarrow> date \<Rightarrow> barcode_analysis llm_reply
     \<Rightarrow> (error + barcode_analysis analysis_reply) \<times> db" where
  "foodRouter_analyzeBarcode tz d uid barcode mealTime dt llm =
     (case readAnalysis llm of
        Inl err \<Rightarrow> (Inl err, d)
      | Inr analysis \<Rightarrow>
          (case addFoodEntry d
                  \<lparr> ife_userId = uid,
                    ife_foodName = ba_foodName analysis,
                    ife_mealTime = mealTime,
                    ife_calories = Math_round (ba_calories analysis),
                    ife_protein = ba_protein analysis,
                    ife_carbs = ba_carbs analysis,
                    ife_fats = ba_fats analysis,
                    ife_quantity = Some (ba_servingSize analysis),
                    ife_unit = Some (ba_servingUnit analysis),
                    ife_imageUrl = None,
                    ife_barcode = Some barcode,
                    ife_source = src_barcode,
                    ife_date = dt \<rparr> of
             Inl err \<Rightarrow> (Inl err, d)
           | Inr (entry, s1) \<Rightarrow>
               (case updateDailySummary tz s1 uid dt of
                  Inl err \<Rightarrow> (Inl err, Some s1)
                | Inr s2 \<Rightarrow>
                    (Inr \<lparr> ar_success = True, ar_analysis = analysis, ar_entry = entry \<rparr>,
                     Some s2))))"

text \<open>\<open>goals || {...}\<close>: the stored row, or the literal object of the four defaults.\<close>

record plain_goals =
  pg_dailyCalories :: int
  pg_dailyProtein :: rat
  pg_dailyCarbs :: rat
  pg_dailyFats :: rat

datatype goals_reply = GoalsRow user_goals | GoalsLiteral plain_goals

definition foodRouter_getGoals :: "db \<Rightarrow> int \<Rightarrow> (error + goals_reply) \<times> db" where
  "foodRouter_getGoals d uid =
     (case getUserGoals d uid of
        Inl err \<Rightarrow> (Inl err, d)
      | Inr (Some goals) \<Rightarrow> (Inr (GoalsRow goals), d)
      | Inr None \<Rightarrow>
          (Inr (GoalsLiteral \<lparr> pg_dailyCalories = 2000, pg_dailyProtein = 150,
                                pg_dailyCarbs = 250, pg_dailyFats = 65 \<rparr>), d))"

text \<open>
  \<open>calculateMacros\<close>: the input schema runs before the body; inside, the \<open>catch\<close> turns
  every error into the object of four zeros.
\<close>

definition foodRouter_calculateMacros ::
  "string \<Rightarrow> macro_calculation llm_reply \<Rightarrow> error + macro_calculation" where
  "foodRouter_calculateMacros foodName llm =
     (if 1 \<le> length foodName
      then (case readAnalysis llm of
              Inl err \<Rightarrow> Inr \<lparr> mc_calories = 0, mc_protein = 0, mc_carbs = 0, mc_fats = 0 \<rparr>
            | Inr analysis \<Rightarrow> Inr analysis)
      else Inl ValidationError)"


section \<open>A predicate on entries\<close>

text \<open>An entry whose calories and macros are all non-negative.\<close>

definition nonNegative :: "food_entry \<Rightarrow> bool" where
  "nonNegative e = (0 \<le> fe_calories e \<and> 0 \<le> fe_protein e \<and> 0 \<le> fe_carbs e \<and> 0 \<le> fe_fats e)"

section \<open>Sample data\<close>

text \<open>
  A small database for the concrete checks below: user 1 has two entries on the day of the
  epoch (server on UTC) with the matching summary row and a goals row; user 2 has one
  entry on the same day and nothing else.
\<close>

definition sampleEntry :: "int \<Rightarrow> int \<Rightarrow> int \<Rightarrow> date \<Rightarrow> date \<Rightarrow> food_entry" where
  "sampleEntry i uid cal created dt =
     \<lparr> fe_id = i, fe_userId = uid, fe_foodName = ''oats'', fe_mealTime = morning,
       fe_calories = cal, fe_protein = 10, fe_carbs = 54, fe_fats = 5,
       fe_quantity = Some 1, fe_unit = Some ''serving'', fe_imageUrl = None,
       fe_barcode = None, fe_source = src_manual, fe_createdAt = created,
       fe_updatedAt = created, fe_date = dt \<rparr>"

definition sampleStore :: store where
  "sampleStore =
     \<lparr> foodEntries =
         [sampleEntry 1 1 300 1000 0, sampleEntry 2 2 450 2000 3600000,
          sampleEntry 3 1 220 3000 7200000],
       dailySummary =
         [\<lparr> ds_id = 1, ds_userId = 1, ds_date = 0, ds_totalCalories = Some 520,
            ds_totalProtein = Some 20, ds_totalCarbs = Some 108, ds_totalFats = Some 10,
            ds_createdAt = 1000, ds_updatedAt = 3000 \<rparr>],
       userGoals =
         [\<lparr> ug_id = 1, ug_userId = 1, ug_height = Some 175, ug_weight = Some 75,
            ug_age = Some 28, ug_gender = Some male, ug_activityLevel = Some moderate,
            ug_dailyCalories = Some 2000, ug_dailyProtein = Some 150,
            ug_dailyCarbs = Some 250, ug_dailyFats = Some 65,
            ug_createdAt = 500, ug_updatedAt = 500 \<rparr>],
       nextFoodEntryId = 4, nextDailySummaryId = 2, nextUserGoalsId = 2, now = 5000 \<rparr>"

definition emptyStore :: store where
  "emptyStore =
     \<lparr> foodEntries = [], dailySummary = [], userGoals = [],
       nextFoodEntryId = 1, nextDailySummaryId = 1, nextUserGoalsId = 1, now = 1000 \<rparr>"

text \<open>A request body with no field set, to build requests from.\<close>

definition noFoodFields :: "rat food_fields" where
  "noFoodFields =
     \<lparr> ff_foodName = None, ff_mealTime = None, ff_calories = None, ff_protein = None,
       ff_carbs = None, ff_fats = None, ff_quantity = None, ff_unit = None,
       ff_imageUrl = None, ff_barcode = None, ff_source = None, ff_date = None \<rparr>"


definition oats :: "rat food_fields" where
  "oats =
     noFoodFields\<lparr> ff_foodName := Some ''oats'', ff_mealTime := Some morning,
       ff_calories := Some 300, ff_protein := Some 10, ff_carbs := Some 54,
       ff_fats := Some 5, ff_source := Some src_manual, ff_date := Some 0 \<rparr>"

definition calories999 :: "rat food_fields" where
  "calories999 = noFoodFields\<lparr> ff_calories := Some 999 \<rparr>"



text \<open>
  User 1 adds \<open>oats\<close> to the empty database, and then either deletes the entry or sets its
  calories to 999.
\<close>

definition afterAdd :: db where
  "afterAdd = snd (foodRouter_addFood utcZone (Some emptyStore) 1 oats)"

definition afterDelete :: db where
  "afterDelete = snd (foodRouter_deleteFood afterAdd 1 1)"

definition afterUpdate :: db where
  "afterUpdate = snd (foodRouter_updateFood afterAdd 1 1 calories999)"



text \<open>Estimator replies that conform to the response schema and hold negative numbers.\<close>

definition negativeAnalysis :: food_analysis where
  "negativeAnalysis =
     \<lparr> fa_foodName = ''ice'', fa_calories = - 50, fa_protein = - 1, fa_carbs = 0,
       fa_fats = 0, fa_quantity = 1, fa_unit = ''cup'' \<rparr>"

definition negativeBarcode :: barcode_analysis where
  "negativeBarcode =
     \<lparr> ba_foodName = ''ice'', ba_calories = - 50, ba_protein = - 1, ba_carbs = 0,
       ba_fats = 0, ba_servingSize = 1, ba_servingUnit = ''cup'' \<rparr>"

section \<open>Auxiliary facts\<close>

lemma floor_rat_numeral_div [simp]:
  "\<lfloor>(numeral a :: rat) / numeral b\<rfloor> = numeral a div numeral b"
  using floor_divide_of_int_eq [of "numeral a" "numeral b", where ?'a = rat] by simp

lemma floor_rat_neg_numeral_div [simp]:
  "\<lfloor>- ((numeral a :: rat) / numeral b)\<rfloor> = - numeral a div numeral b"
  using floor_divide_of_int_eq [of "- numeral a" "numeral b", where ?'a = rat] by simp





lemmas day_defs =
  startOfDay_def endOfDay_def setHours_def LocalTime_def UTC_def utcZone_def fixedZone_def

lemma find_snoc_new: "find P xs = None \<Longrightarrow> P x \<Longrightarrow> find P (xs @ [x]) = Some x"
  by (induction xs) (auto split: if_splits)


lemma find_map_upd_by:
  "find P xs = Some g \<Longrightarrow> (\<And>r. P (h r) = P r) \<Longrightarrow> Q g \<Longrightarrow>
   find P (map (\<lambda>r. if Q r then h r else r) xs) = Some (h g)"
  by (induction xs) (auto split: if_splits)

lemma setFoodFields_userId: "fe_userId (setFoodFields f e) = fe_userId e"
  by (simp add: setFoodFields_def)

lemma updateFoodRow_userId: "fe_userId (updateFoodRow t f e) = fe_userId e"
  by (simp add: updateFoodRow_def Let_def setFoodFields_userId)

lemma updateFoodRow_id: "fe_id (updateFoodRow t f e) = fe_id e"
  by (simp add: updateFoodRow_def Let_def setFoodFields_def)

lemma AddFoodEntrySchema_partial_has_values:
  assumes "AddFoodEntrySchema_partial raw = Inr f"
  shows "\<not> noFoodValues f"
proof -
  from assms have "ff_quantity f = Some (orElse (ff_quantity raw) 1)"
    by (auto simp: AddFoodEntrySchema_partial_def split: if_splits)
  then show ?thesis by (simp add: noFoodValues_def)
qed

lemmas bmi_defs =
  calculateBMI_def bmrOf_def activityMultiplier_def ACTIVITY_MULTIPLIERS_def
  adjustCalories_def calculateMacros_def macroRatios_def

lemmas update_defs =
  foodRouter_updateFood_def updateFoodEntry_def AddFoodEntrySchema_partial_def
  updateFoodRow_def setFoodFields_def optOk_def orElse_def orKeep_def is_integer_def
  isSafeInteger_def MAX_SAFE_INTEGER_def noFoodValues_def
  calories999_def noFoodFields_def sampleStore_def sampleEntry_def

lemmas add_defs =
  foodRouter_addFood_def withUserId_def AddFoodEntrySchema_def addFoodEntry_def newFoodEntry_def
  updateDailySummary_def getFoodEntriesByDate_def upsertDailySummary_def getDailySummary_def
  inDay_def day_defs asTotals_def addTotals_def zeroTotals_def
  orElse_def orKeep_def is_integer_def isSafeInteger_def MAX_SAFE_INTEGER_def setTotals_def

section \<open>The BMI and TDEE derivation\<close>

text \<open>
  C8, as the specification states it, fails on its own example: for height 175, weight 75,
  age 28, male, moderate, maintain the calculator does not give 2742 kcal, nor 206 g of
  protein, 309 g of carbohydrate or 76 g of fat.
\<close>

theorem calculateBMI_example_not_2742:
  "map_option r_dailyCalories (calculateBMI 175 75 28 male ''moderate'' ''maintain'') \<noteq> Some 2742
   \<and> map_option r_dailyProtein (calculateBMI 175 75 28 male ''moderate'' ''maintain'') \<noteq> Some 206
   \<and> map_option r_dailyCarbs (calculateBMI 175 75 28 male ''moderate'' ''maintain'') \<noteq> Some 309
   \<and> map_option r_dailyFats (calculateBMI 175 75 28 male ''moderate'' ''maintain'') \<noteq> Some 76"
  by (simp add: bmi_defs Math_round_def Let_def)

text \<open>
  C8, amended: for positive height, weight and age the calculator returns a result that
  depends on its inputs only, with BMR = 10 weight + 6.25 height - 5 age + 5 for male and
  - 161 otherwise, TDEE = BMR times the activity multiplier (1.55 when the level is not in
  the table), the calories times 0.85 for lose, times 1.10 for gain and unchanged
  otherwise, and each macro the adjusted calories times its ratio divided by 4, 4 and 9,
  rounded to the nearest gram. For height 175, weight 75, age 28, male, moderate, maintain
  the adjusted calories are 2648.5625, reported as 2649 kcal, with 199 g of protein,
  298 g of carbohydrate and 74 g of fat.
\<close>

theorem calculateBMI_formula:
  "(0 < h \<and> 0 < w \<and> 0 < a \<longrightarrow>
     (\<exists>r. calculateBMI h w a g lvl goal = Some r
        \<and> r_adjustedCalories r =
            ((10 * w + (625 / 100) * h - 5 * rat_of_int a + (if g = male then 5 else - 161))
             * (if lvl = ''sedentary'' then 12 / 10
                else if lvl = ''light'' then 1375 / 1000
                else if lvl = ''moderate'' then 155 / 100
                else if lvl = ''active'' then 1725 / 1000
                else if lvl = ''veryActive'' then 19 / 10
                else 155 / 100))
            * (if goal = ''lose'' then 85 / 100 else if goal = ''gain'' then 11 / 10 else 1)
        \<and> r_dailyCalories r = Math_round (r_adjustedCalories r)
        \<and> r_dailyProtein r =
            Math_round (r_adjustedCalories r
              * (if goal = ''lose'' then 35 / 100 else if goal = ''gain'' then 30 / 100
                 else 30 / 100) / 4)
        \<and> r_dailyCarbs r =
            Math_round (r_adjustedCalories r
              * (if goal = ''lose'' then 40 / 100 else if goal = ''gain'' then 50 / 100
                 else 45 / 100) / 4)
        \<and> r_dailyFats r =
            Math_round (r_adjustedCalories r
              * (if goal = ''lose'' then 25 / 100 else if goal = ''gain'' then 20 / 100
                 else 25 / 100) / 9)))
   \<and> calculateBMI 175 75 28 male ''moderate'' ''maintain'' =
       Some \<lparr> r_height = 175, r_weight = 75, r_age = 28, r_gender = male,
              r_activityLevel = ''moderate'', r_adjustedCalories = 42377 / 16,
              r_dailyCalories = 2649, r_dailyProtein = 199, r_dailyCarbs = 298,
              r_dailyFats = 74 \<rparr>"
proof (intro conjI impI)
  assume "0 < h \<and> 0 < w \<and> 0 < a"
  then show "\<exists>r. calculateBMI h w a g lvl goal = Some r
        \<and> r_adjustedCalories r =
            ((10 * w + (625 / 100) * h - 5 * rat_of_int a + (if g = male then 5 else - 161))
             * (if lvl = ''sedentary'' then 12 / 10
                else if lvl = ''light'' then 1375 / 1000
                else if lvl = ''moderate'' then 155 / 100
                else if lvl = ''active'' then 1725 / 1000
                else if lvl = ''veryActive'' then 19 / 10
                else 155 / 100))
            * (if goal = ''lose'' then 85 / 100 else if goal = ''gain'' then 11 / 10 else 1)
        \<and> r_dailyCalories r = Math_round (r_adjustedCalories r)
        \<and> r_dailyProtein r =
            Math_round (r_adjustedCalories r
              * (if goal = ''lose'' then 35 / 100 else if goal = ''gain'' then 30 / 100
                 else 30 / 100) / 4)
        \<and> r_dailyCarbs r =
            Math_round (r_adjustedCalories r
              * (if goal = ''lose'' then 40 / 100 else if goal = ''gain'' then 50 / 100
                 else 45 / 100) / 4)
        \<and> r_dailyFats r =
            Math_round (r_adjustedCalories r
              * (if goal = ''lose'' then 25 / 100 else if goal = ''gain'' then 20 / 100
                 else 25 / 100) / 9)"
    by (simp add: bmi_defs Let_def)
next
  show "calculateBMI 175 75 28 male ''moderate'' ''maintain'' =
       Some \<lparr> r_height = 175, r_weight = 75, r_age = 28, r_gender = male,
              r_activityLevel = ''moderate'', r_adjustedCalories = 42377 / 16,
              r_dailyCalories = 2649, r_dailyProtein = 199, r_dailyCarbs = 298,
              r_dailyFats = 74 \<rparr>"
    by (simp add: bmi_defs Math_round_def Let_def)
qed

theorem calculateBMI_formula_witness:
  "(0 :: rat) < 180 \<and> (0 :: rat) < 80 \<and> (0 :: int) < 30
   \<and> map_option r_adjustedCalories (calculateBMI 180 80 30 female ''active'' ''lose'')
       = Some (946611 / 400)
   \<and> map_option r_dailyCalories (calculateBMI 180 80 30 female ''active'' ''lose'') = Some 2367"
proof -
  have h: "(0 :: rat) < 180 \<and> (0 :: rat) < 80 \<and> (0 :: int) < 30" by simp
  from calculateBMI_formula [of 180 80 30 female "''active''" "''lose''"] h
  obtain r where r: "calculateBMI 180 80 30 female ''active'' ''lose'' = Some r"
    and adj: "r_adjustedCalories r =
      ((10 * 80 + (625 / 100) * 180 - 5 * rat_of_int 30 + (if female = male then 5 else - 161))
       * (if ''active'' = ''sedentary'' then 12 / 10
          else if ''active'' = ''light'' then 1375 / 1000
          else if ''active'' = ''moderate'' then 155 / 100
          else if ''active'' = ''active'' then 1725 / 1000
          else if ''active'' = ''veryActive'' then 19 / 10
          else 155 / 100))
      * (if ''lose'' = ''lose'' then 85 / 100 else if ''lose'' = ''gain'' then 11 / 10 else 1)"
    and cal: "r_dailyCalories r = Math_round (r_adjustedCalories r)"
    by blast
  from adj have adj': "r_adjustedCalories r = 946611 / 400" by simp
  from cal adj' have "r_dailyCalories r = 2367" by (simp add: Math_round_def)
  with r adj' h show ?thesis by simp
qed

section \<open>Reading goals and summaries\<close>

text \<open>
  C4: for a user with no stored goals row, \<open>getGoals\<close> returns exactly the defaults
  2000, 150, 250 and 65, and leaves the database as it was.
\<close>

theorem getGoals_defaults:
  assumes "\<forall>r\<in>set (userGoals s). ug_userId r \<noteq> uid"
  shows "foodRouter_getGoals (Some s) uid =
     (Inr (GoalsLiteral \<lparr> pg_dailyCalories = 2000, pg_dailyProtein = 150,
                          pg_dailyCarbs = 250, pg_dailyFats = 65 \<rparr>), Some s)"
proof -
  from assms have "find (\<lambda>r. ug_userId r = uid) (userGoals s) = None"
    by (simp add: find_None_iff)
  then show ?thesis by (simp add: foodRouter_getGoals_def getUserGoals_def)
qed

theorem getGoals_defaults_witness:
  "foodRouter_getGoals (Some sampleStore) 2 =
     (Inr (GoalsLiteral \<lparr> pg_dailyCalories = 2000, pg_dailyProtein = 150,
                          pg_dailyCarbs = 250, pg_dailyFats = 65 \<rparr>), Some sampleStore)"
proof -
  have "\<forall>r\<in>set (userGoals sampleStore). ug_userId r \<noteq> 2"
    by (simp add: sampleStore_def)
  then show ?thesis by (rule getGoals_defaults)
qed

text \<open>
  C5: when no summary row exists for the user and the day of the date, \<open>getDailySummary\<close>
  returns the summary of four zeros; with a database it always returns a summary, never
  null, and writes nothing.
\<close>

theorem getDailySummary_zero:
  "((\<forall>r\<in>set (dailySummary s). \<not> (ds_userId r = uid \<and> ds_date r = startOfDay tz dt)) \<longrightarrow>
      foodRouter_getDailySummary tz (Some s) uid dt =
        (Inr (SummaryLiteral \<lparr> pt_totalCalories = 0, pt_totalProtein = 0,
                                pt_totalCarbs = 0, pt_totalFats = 0 \<rparr>), Some s))
   \<and> (\<exists>reply. foodRouter_getDailySummary tz (Some s) uid dt = (Inr reply, Some s))"
proof (intro conjI impI)
  assume "\<forall>r\<in>set (dailySummary s). \<not> (ds_userId r = uid \<and> ds_date r = startOfDay tz dt)"
  then have "find (\<lambda>r. ds_userId r = uid \<and> ds_date r = startOfDay tz dt) (dailySummary s) = None"
    by (simp add: find_None_iff)
  then show "foodRouter_getDailySummary tz (Some s) uid dt =
        (Inr (SummaryLiteral \<lparr> pt_totalCalories = 0, pt_totalProtein = 0,
                                pt_totalCarbs = 0, pt_totalFats = 0 \<rparr>), Some s)"
    by (simp add: foodRouter_getDailySummary_def getDailySummary_def)
next
  show "\<exists>reply. foodRouter_getDailySummary tz (Some s) uid dt = (Inr reply, Some s)"
    by (simp add: foodRouter_getDailySummary_def getDailySummary_def split: option.splits)
qed

theorem getDailySummary_zero_witness:
  "foodRouter_getDailySummary utcZone (Some sampleStore) 1 86400000 =
     (Inr (SummaryLiteral \<lparr> pt_totalCalories = 0, pt_totalProtein = 0,
                             pt_totalCarbs = 0, pt_totalFats = 0 \<rparr>), Some sampleStore)"
proof -
  have "\<forall>r\<in>set (dailySummary sampleStore).
          \<not> (ds_userId r = 1 \<and> ds_date r = startOfDay utcZone 86400000)"
    by (simp add: sampleStore_def day_defs)
  with getDailySummary_zero [of sampleStore 1 utcZone 86400000] show ?thesis by blast
qed

section \<open>Updating goals\<close>












section \<open>Ownership\<close>

text \<open>
  C6: when every entry with the given id belongs to somebody else, \<open>deleteFood\<close> changes
  nothing at all: the caller's reply apart, the database afterwards is the database
  before, entries and summaries alike. \<open>updateFood\<close> keeps every row's owner and id and
  changes only rows that have the given id and belong to the caller; it writes to no other
  table.
\<close>

theorem delete_update_confined_to_owner:
  "((\<forall>e\<in>set (foodEntries s). fe_id e = i \<longrightarrow> fe_userId e \<noteq> B) \<longrightarrow>
      foodRouter_deleteFood (Some s) B i = (Inr \<lparr> success = True \<rparr>, Some s))
   \<and> (foodRouter_updateFood (Some s) B i raw = (reply, Some s') \<longrightarrow>
        list_all2 (\<lambda>e e'. fe_userId e' = fe_userId e \<and> fe_id e' = fe_id e
                      \<and> (e' \<noteq> e \<longrightarrow> fe_userId e = B \<and> fe_id e = i))
          (foodEntries s) (foodEntries s')
        \<and> dailySummary s' = dailySummary s \<and> userGoals s' = userGoals s)"
proof (intro conjI impI)
  assume "\<forall>e\<in>set (foodEntries s). fe_id e = i \<longrightarrow> fe_userId e \<noteq> B"
  then have "filter (\<lambda>e. \<not> (fe_id e = i \<and> fe_userId e = B)) (foodEntries s) = foodEntries s"
    by (simp add: filter_id_conv)
  then show "foodRouter_deleteFood (Some s) B i = (Inr \<lparr> success = True \<rparr>, Some s)"
    by (simp add: foodRouter_deleteFood_def deleteFoodEntry_def)
next
  assume a: "foodRouter_updateFood (Some s) B i raw = (reply, Some s')"
  then show "list_all2 (\<lambda>e e'. fe_userId e' = fe_userId e \<and> fe_id e' = fe_id e
                      \<and> (e' \<noteq> e \<longrightarrow> fe_userId e = B \<and> fe_id e = i))
          (foodEntries s) (foodEntries s')"
    by (auto simp: foodRouter_updateFood_def updateFoodEntry_def list_all2_map2 list_all2_same
        updateFoodRow_userId updateFoodRow_id split: sum.splits if_splits)
  from a show "dailySummary s' = dailySummary s"
    by (auto simp: foodRouter_updateFood_def updateFoodEntry_def split: sum.splits if_splits)
  from a show "userGoals s' = userGoals s"
    by (auto simp: foodRouter_updateFood_def updateFoodEntry_def split: sum.splits if_splits)
qed

theorem delete_update_confined_to_owner_witness:
  "foodRouter_deleteFood (Some sampleStore) 2 1 = (Inr \<lparr> success = True \<rparr>, Some sampleStore)
   \<and> list_all2 (\<lambda>e e'. fe_userId e' = fe_userId e \<and> fe_id e' = fe_id e
                      \<and> (e' \<noteq> e \<longrightarrow> fe_userId e = 2 \<and> fe_id e = 2))
        (foodEntries sampleStore)
        [sampleEntry 1 1 300 1000 0,
         (sampleEntry 2 2 450 2000 3600000)\<lparr> fe_calories := 999, fe_updatedAt := 5000 \<rparr>,
         sampleEntry 3 1 220 3000 7200000]"
proof -
  let ?s' = "sampleStore\<lparr> foodEntries :=
        [sampleEntry 1 1 300 1000 0,
         (sampleEntry 2 2 450 2000 3600000)\<lparr> fe_calories := 999, fe_updatedAt := 5000 \<rparr>,
         sampleEntry 3 1 220 3000 7200000] \<rparr>"
  have h1: "\<forall>e\<in>set (foodEntries sampleStore). fe_id e = 1 \<longrightarrow> fe_userId e \<noteq> 2"
    by (simp add: sampleStore_def sampleEntry_def)
  have h2: "foodRouter_updateFood (Some sampleStore) 2 2 calories999
              = (Inr \<lparr> success = True \<rparr>, Some ?s')"
    by (simp add: update_defs)
  from delete_update_confined_to_owner [of sampleStore 1 2 calories999 "Inr \<lparr> success = True \<rparr>" ?s']
  have "foodRouter_deleteFood (Some sampleStore) 2 1 = (Inr \<lparr> success = True \<rparr>, Some sampleStore)"
    using h1 by blast
  moreover
  from delete_update_confined_to_owner [of sampleStore 2 2 calories999 "Inr \<lparr> success = True \<rparr>" ?s'] h2
  have "list_all2 (\<lambda>e e'. fe_userId e' = fe_userId e \<and> fe_id e' = fe_id e
                      \<and> (e' \<noteq> e \<longrightarrow> fe_userId e = 2 \<and> fe_id e = 2))
        (foodEntries sampleStore) (foodEntries ?s')"
    by blast
  ultimately show ?thesis by simp
qed

section \<open>The entries of a day\<close>




section \<open>The summary after each mutation\<close>

lemma foldl_addTotals:
  "pt_totalCalories (foldl addTotals acc es) = pt_totalCalories acc + sum_list (map fe_calories es)
   \<and> pt_totalProtein (foldl addTotals acc es) = pt_totalProtein acc + sum_list (map fe_protein es)
   \<and> pt_totalCarbs (foldl addTotals acc es) = pt_totalCarbs acc + sum_list (map fe_carbs es)
   \<and> pt_totalFats (foldl addTotals acc es) = pt_totalFats acc + sum_list (map fe_fats es)"
  by (induction es arbitrary: acc) (simp_all add: addTotals_def)

lemma setTotals_shape:
  "\<exists>u. setTotals t (asTotals p) r =
     r\<lparr> ds_totalCalories := Some (pt_totalCalories p),
        ds_totalProtein := Some (pt_totalProtein p),
        ds_totalCarbs := Some (pt_totalCarbs p),
        ds_totalFats := Some (pt_totalFats p),
        ds_updatedAt := u \<rparr>"
proof -
  let ?r' = "r\<lparr> ds_totalCalories := Some (pt_totalCalories p),
        ds_totalProtein := Some (pt_totalProtein p),
        ds_totalCarbs := Some (pt_totalCarbs p),
        ds_totalFats := Some (pt_totalFats p) \<rparr>"
  have d: "setTotals t (asTotals p) r = (if ?r' = r then r else ?r'\<lparr> ds_updatedAt := t \<rparr>)"
    by (simp add: setTotals_def asTotals_def orKeep_def Let_def)
  show ?thesis
  proof (cases "?r' = r")
    case True
    then have "setTotals t (asTotals p) r = ?r'\<lparr> ds_updatedAt := ds_updatedAt r \<rparr>"
      using d by simp
    then show ?thesis by blast
  next
    case False
    then have "setTotals t (asTotals p) r = ?r'\<lparr> ds_updatedAt := t \<rparr>"
      using d by simp
    then show ?thesis by blast
  qed
qed

lemma setTotals_fields:
  "ds_userId (setTotals t (asTotals p) r) = ds_userId r"
  "ds_date (setTotals t (asTotals p) r) = ds_date r"
  "ds_totalCalories (setTotals t (asTotals p) r) = Some (pt_totalCalories p)"
  "ds_totalProtein (setTotals t (asTotals p) r) = Some (pt_totalProtein p)"
  "ds_totalCarbs (setTotals t (asTotals p) r) = Some (pt_totalCarbs p)"
  "ds_totalFats (setTotals t (asTotals p) r) = Some (pt_totalFats p)"
  using setTotals_shape [of t p r] by auto

lemma upsertDailySummary_stores:
  "\<exists>s2 row. upsertDailySummary tz (Some s1) uid dt (asTotals p) = Inr s2
     \<and> foodEntries s2 = foodEntries s1
     \<and> getDailySummary tz (Some s2) uid dt = Inr (Some row)
     \<and> ds_totalCalories row = Some (pt_totalCalories p)
     \<and> ds_totalProtein row = Some (pt_totalProtein p)
     \<and> ds_totalCarbs row = Some (pt_totalCarbs p)
     \<and> ds_totalFats row = Some (pt_totalFats p)"
proof (cases "find (\<lambda>r. ds_userId r = uid \<and> ds_date r = startOfDay tz dt) (dailySummary s1)")
  case None
  let ?new = "\<lparr> ds_id = nextDailySummaryId s1, ds_userId = uid, ds_date = startOfDay tz dt,
      ds_totalCalories = Some (pt_totalCalories p), ds_totalProtein = Some (pt_totalProtein p),
      ds_totalCarbs = Some (pt_totalCarbs p), ds_totalFats = Some (pt_totalFats p),
      ds_createdAt = now s1, ds_updatedAt = now s1 \<rparr>"
  from None have "find (\<lambda>r. ds_userId r = uid \<and> ds_date r = startOfDay tz dt)
      (dailySummary s1 @ [?new]) = Some ?new"
    by (simp add: find_snoc_new)
  with None show ?thesis
    by (simp add: upsertDailySummary_def getDailySummary_def asTotals_def orElse_def)
next
  case (Some existing)
  then have "find (\<lambda>r. ds_userId r = uid \<and> ds_date r = startOfDay tz dt)
      (map (\<lambda>r. if ds_id r = ds_id existing then setTotals (now s1) (asTotals p) r else r)
         (dailySummary s1)) = Some (setTotals (now s1) (asTotals p) existing)"
    by (rule find_map_upd_by) (simp_all add: setTotals_fields)
  moreover have "totalCalories (asTotals p) \<noteq> None"
    by (simp add: asTotals_def)
  ultimately show ?thesis
    using Some by (simp add: upsertDailySummary_def getDailySummary_def setTotals_fields)
qed

lemma addFood_success:
  assumes "foodRouter_addFood tz (Some s) uid raw = (Inr i, Some s')"
  shows "\<exists>input. AddFoodEntrySchema raw = Inr input
     \<and> updateDailySummary tz
          (s\<lparr> foodEntries := foodEntries s @ [newFoodEntry s (withUserId uid input)],
             nextFoodEntryId := nextFoodEntryId s + 1 \<rparr>) uid (afi_date input) = Inr s'"
proof (cases "AddFoodEntrySchema raw")
  case (Inl err)
  with assms show ?thesis by (simp add: foodRouter_addFood_def)
next
  case (Inr input)
  let ?s1 = "s\<lparr> foodEntries := foodEntries s @ [newFoodEntry s (withUserId uid input)],
             nextFoodEntryId := nextFoodEntryId s + 1 \<rparr>"
  have "updateDailySummary tz ?s1 uid (afi_date input) = Inr s'"
  proof (cases "updateDailySummary tz ?s1 uid (afi_date input)")
    case (Inl err)
    with assms Inr show ?thesis by (simp add: foodRouter_addFood_def addFoodEntry_def)
  next
    case (Inr s2)
    with assms \<open>AddFoodEntrySchema raw = Inr input\<close> show ?thesis
      by (simp add: foodRouter_addFood_def addFoodEntry_def)
  qed
  with Inr show ?thesis by blast
qed

lemma updateDailySummary_stores:
  assumes "updateDailySummary tz s1 uid dt = Inr s'"
  shows "\<exists>row es. foodEntries s' = foodEntries s1
     \<and> getDailySummary tz (Some s') uid dt = Inr (Some row)
     \<and> getFoodEntriesByDate tz (Some s') uid dt = Inr es
     \<and> ds_totalCalories row = Some (sum_list (map fe_calories es))
     \<and> ds_totalProtein row = Some (sum_list (map fe_protein es))
     \<and> ds_totalCarbs row = Some (sum_list (map fe_carbs es))
     \<and> ds_totalFats row = Some (sum_list (map fe_fats es))"
proof -
  let ?es = "sort_key fe_createdAt (filter (inDay tz uid dt) (foodEntries s1))"
  let ?p = "foldl addTotals zeroTotals ?es"
  from assms have up: "upsertDailySummary tz (Some s1) uid dt (asTotals ?p) = Inr s'"
    by (simp add: updateDailySummary_def getFoodEntriesByDate_def)
  from upsertDailySummary_stores [of tz s1 uid dt ?p]
  obtain s2 row where "upsertDailySummary tz (Some s1) uid dt (asTotals ?p) = Inr s2"
    and fe0: "foodEntries s2 = foodEntries s1"
    and row0: "getDailySummary tz (Some s2) uid dt = Inr (Some row)"
    and t: "ds_totalCalories row = Some (pt_totalCalories ?p)"
      "ds_totalProtein row = Some (pt_totalProtein ?p)"
      "ds_totalCarbs row = Some (pt_totalCarbs ?p)"
      "ds_totalFats row = Some (pt_totalFats ?p)"
    by blast
  with up have "s2 = s'" by simp
  with fe0 row0 have fe: "foodEntries s' = foodEntries s1"
    and row: "getDailySummary tz (Some s') uid dt = Inr (Some row)"
    by simp_all
  have es: "getFoodEntriesByDate tz (Some s') uid dt = Inr ?es"
    by (simp add: getFoodEntriesByDate_def fe)
  have z: "pt_totalCalories zeroTotals = 0" "pt_totalProtein zeroTotals = 0"
    "pt_totalCarbs zeroTotals = 0" "pt_totalFats zeroTotals = 0"
    by (simp_all add: zeroTotals_def)
  have
    "ds_totalCalories row = Some (sum_list (map fe_calories ?es))"
    "ds_totalProtein row = Some (sum_list (map fe_protein ?es))"
    "ds_totalCarbs row = Some (sum_list (map fe_carbs ?es))"
    "ds_totalFats row = Some (sum_list (map fe_fats ?es))"
    using t foldl_addTotals [of zeroTotals ?es] z by simp_all
  with fe row es show ?thesis by blast
qed

lemma AddFoodEntrySchema_accepts:
  assumes "AddFoodEntrySchema raw = Inr input"
  shows "ff_date raw = Some (afi_date input) \<and> 0 \<le> afi_calories input
     \<and> 0 \<le> afi_protein input \<and> 0 \<le> afi_carbs input \<and> 0 \<le> afi_fats input"
proof -
  from assms obtain nm mt cal p c ft src dt where
    f: "ff_foodName raw = Some nm" "ff_mealTime raw = Some mt" "ff_calories raw = Some cal"
      "ff_protein raw = Some p" "ff_carbs raw = Some c" "ff_fats raw = Some ft"
      "ff_source raw = Some src" "ff_date raw = Some dt"
    by (cases "ff_foodName raw"; cases "ff_mealTime raw"; cases "ff_calories raw";
        cases "ff_protein raw"; cases "ff_carbs raw"; cases "ff_fats raw";
        cases "ff_source raw"; cases "ff_date raw")
       (simp_all add: AddFoodEntrySchema_def)
  with assms show ?thesis
    by (cases "1 \<le> length nm \<and> isSafeInteger cal \<and> 0 \<le> cal \<and> 0 \<le> p \<and> 0 \<le> c \<and> 0 \<le> ft")
       (auto simp: AddFoodEntrySchema_def)
qed

text \<open>
  The add path keeps the summary right: after a successful \<open>addFood\<close> the summary row of
  the entry's day holds the sums over the user's entries of that day.
\<close>

lemma addFood_recomputes_summary:
  assumes "foodRouter_addFood tz (Some s) uid raw = (Inr i, Some s')"
    and "ff_date raw = Some dt"
  shows "\<exists>row es. getDailySummary tz (Some s') uid dt = Inr (Some row)
     \<and> getFoodEntriesByDate tz (Some s') uid dt = Inr es
     \<and> ds_totalCalories row = Some (sum_list (map fe_calories es))
     \<and> ds_totalProtein row = Some (sum_list (map fe_protein es))
     \<and> ds_totalCarbs row = Some (sum_list (map fe_carbs es))
     \<and> ds_totalFats row = Some (sum_list (map fe_fats es))"
proof -
  from addFood_success [OF assms(1)] obtain input where
    inp: "AddFoodEntrySchema raw = Inr input"
    and up: "updateDailySummary tz
          (s\<lparr> foodEntries := foodEntries s @ [newFoodEntry s (withUserId uid input)],
             nextFoodEntryId := nextFoodEntryId s + 1 \<rparr>) uid (afi_date input) = Inr s'"
    by blast
  from AddFoodEntrySchema_accepts [OF inp] assms(2) have "afi_date input = dt" by simp
  with updateDailySummary_stores [OF up] show ?thesis by blast
qed

lemma afterAdd_eq:
  "afterAdd = Some
     \<lparr> foodEntries = [sampleEntry 1 1 300 1000 0],
       dailySummary =
         [\<lparr> ds_id = 1, ds_userId = 1, ds_date = 0, ds_totalCalories = Some 300,
            ds_totalProtein = Some 10, ds_totalCarbs = Some 54, ds_totalFats = Some 5,
            ds_createdAt = 1000, ds_updatedAt = 1000 \<rparr>],
       userGoals = [], nextFoodEntryId = 2, nextDailySummaryId = 2, nextUserGoalsId = 1,
       now = 1000 \<rparr>"
  by (simp add: afterAdd_def add_defs emptyStore_def oats_def noFoodFields_def sampleEntry_def)

lemma afterDelete_eq:
  "afterDelete = Some
     \<lparr> foodEntries = [],
       dailySummary =
         [\<lparr> ds_id = 1, ds_userId = 1, ds_date = 0, ds_totalCalories = Some 300,
            ds_totalProtein = Some 10, ds_totalCarbs = Some 54, ds_totalFats = Some 5,
            ds_createdAt = 1000, ds_updatedAt = 1000 \<rparr>],
       userGoals = [], nextFoodEntryId = 2, nextDailySummaryId = 2, nextUserGoalsId = 1,
       now = 1000 \<rparr>"
  by (simp add: afterDelete_def afterAdd_eq foodRouter_deleteFood_def deleteFoodEntry_def
      sampleEntry_def)

lemma afterUpdate_eq:
  "afterUpdate = Some
     \<lparr> foodEntries = [(sampleEntry 1 1 300 1000 0)\<lparr> fe_calories := 999 \<rparr>],
       dailySummary =
         [\<lparr> ds_id = 1, ds_userId = 1, ds_date = 0, ds_totalCalories = Some 300,
            ds_totalProtein = Some 10, ds_totalCarbs = Some 54, ds_totalFats = Some 5,
            ds_createdAt = 1000, ds_updatedAt = 1000 \<rparr>],
       userGoals = [], nextFoodEntryId = 2, nextDailySummaryId = 2, nextUserGoalsId = 1,
       now = 1000 \<rparr>"
  by (simp add: afterUpdate_def afterAdd_eq foodRouter_updateFood_def updateFoodEntry_def
      AddFoodEntrySchema_partial_def updateFoodRow_def setFoodFields_def optOk_def orElse_def
      orKeep_def is_integer_def isSafeInteger_def MAX_SAFE_INTEGER_def noFoodValues_def
      calories999_def noFoodFields_def sampleEntry_def)

text \<open>
  C1 fails on the code. User 1 adds one entry of 300 kcal to an empty database and the
  summary of the day says 300. After \<open>deleteFood\<close> the day has no entry and the summary
  still says 300; after \<open>updateFood\<close> to 999 kcal instead, the day's entry has 999 kcal and
  the summary still says 300. Neither procedure recomputes the summary.
\<close>

theorem deleteFood_updateFood_leave_summary_stale:
  "map_sum id (map fe_calories) (fst (foodRouter_getFoodsByDate utcZone afterAdd 1 0)) = Inr [300]
   \<and> fst (foodRouter_getDailySummary utcZone afterAdd 1 0) =
       Inr (SummaryRow \<lparr> ds_id = 1, ds_userId = 1, ds_date = 0, ds_totalCalories = Some 300,
              ds_totalProtein = Some 10, ds_totalCarbs = Some 54, ds_totalFats = Some 5,
              ds_createdAt = 1000, ds_updatedAt = 1000 \<rparr>)
   \<and> map_sum id (map fe_calories) (fst (foodRouter_getFoodsByDate utcZone afterDelete 1 0)) = Inr []
   \<and> fst (foodRouter_getDailySummary utcZone afterDelete 1 0) =
       Inr (SummaryRow \<lparr> ds_id = 1, ds_userId = 1, ds_date = 0, ds_totalCalories = Some 300,
              ds_totalProtein = Some 10, ds_totalCarbs = Some 54, ds_totalFats = Some 5,
              ds_createdAt = 1000, ds_updatedAt = 1000 \<rparr>)
   \<and> map_sum id (map fe_calories) (fst (foodRouter_getFoodsByDate utcZone afterUpdate 1 0)) = Inr [999]
   \<and> fst (foodRouter_getDailySummary utcZone afterUpdate 1 0) =
       Inr (SummaryRow \<lparr> ds_id = 1, ds_userId = 1, ds_date = 0, ds_totalCalories = Some 300,
              ds_totalProtein = Some 10, ds_totalCarbs = Some 54, ds_totalFats = Some 5,
              ds_createdAt = 1000, ds_updatedAt = 1000 \<rparr>)"
  by (simp add: afterAdd_eq afterDelete_eq afterUpdate_eq foodRouter_getFoodsByDate_def
      foodRouter_getDailySummary_def getFoodEntriesByDate_def getDailySummary_def inDay_def
      day_defs sampleEntry_def)

section \<open>What the analysis procedures store\<close>

text \<open>
  The manual paths check their input: \<open>addFood\<close> appends one entry of the caller with
  non-negative calories and macros, and \<open>updateFood\<close> keeps a table of such entries one.
\<close>

lemma addFood_stores_nonNegative:
  assumes "foodRouter_addFood tz (Some s) uid raw = (Inr i, Some s')"
  shows "\<exists>e. foodEntries s' = foodEntries s @ [e] \<and> fe_userId e = uid \<and> nonNegative e"
proof -
  from addFood_success [OF assms(1)] obtain input where
    inp: "AddFoodEntrySchema raw = Inr input"
    and up: "updateDailySummary tz
          (s\<lparr> foodEntries := foodEntries s @ [newFoodEntry s (withUserId uid input)],
             nextFoodEntryId := nextFoodEntryId s + 1 \<rparr>) uid (afi_date input) = Inr s'"
    by blast
  let ?e = "newFoodEntry s (withUserId uid input)"
  from updateDailySummary_stores [OF up]
  have "foodEntries s' = foodEntries s @ [?e]" by auto
  moreover have "fe_userId ?e = uid" by (simp add: newFoodEntry_def withUserId_def)
  moreover from AddFoodEntrySchema_accepts [OF inp] have "nonNegative ?e"
    by (simp add: nonNegative_def newFoodEntry_def withUserId_def)
  ultimately show ?thesis by blast
qed

lemma updateFoodRow_nonNegative:
  assumes "AddFoodEntrySchema_partial raw = Inr f" and "nonNegative e"
  shows "nonNegative (updateFoodRow t f e)"
proof -
  from assms(1) have ok:
    "optOk (\<lambda>cal. isSafeInteger cal \<and> 0 \<le> cal) (ff_calories raw)"
    "optOk (\<lambda>p. 0 \<le> p) (ff_protein raw)"
    "optOk (\<lambda>c. 0 \<le> c) (ff_carbs raw)" "optOk (\<lambda>ft. 0 \<le> ft) (ff_fats raw)"
    and f: "ff_calories f = map_option floor (ff_calories raw)" "ff_protein f = ff_protein raw"
      "ff_carbs f = ff_carbs raw" "ff_fats f = ff_fats raw"
    by (auto simp: AddFoodEntrySchema_partial_def split: if_splits)
  have c: "0 \<le> orElse (ff_calories f) (fe_calories e)"
    using ok(1) f(1) assms(2)
    by (cases "ff_calories raw") (simp_all add: orElse_def optOk_def nonNegative_def)
  have p: "0 \<le> orElse (ff_protein f) (fe_protein e)"
    using ok(2) f(2) assms(2)
    by (cases "ff_protein raw") (simp_all add: orElse_def optOk_def nonNegative_def)
  have cb: "0 \<le> orElse (ff_carbs f) (fe_carbs e)"
    using ok(3) f(3) assms(2)
    by (cases "ff_carbs raw") (simp_all add: orElse_def optOk_def nonNegative_def)
  have ft: "0 \<le> orElse (ff_fats f) (fe_fats e)"
    using ok(4) f(4) assms(2)
    by (cases "ff_fats raw") (simp_all add: orElse_def optOk_def nonNegative_def)
  have "nonNegative (setFoodFields f e)"
    using c p cb ft by (simp add: nonNegative_def setFoodFields_def)
  then have "nonNegative ((setFoodFields f e)\<lparr> fe_updatedAt := t \<rparr>)"
    by (simp add: nonNegative_def)
  with assms(2) show ?thesis
    by (simp add: updateFoodRow_def Let_def)
qed

lemma updateFood_keeps_nonNegative:
  assumes "foodRouter_updateFood (Some s) uid i raw = (reply, Some s')"
    and "\<forall>e\<in>set (foodEntries s). nonNegative e"
  shows "\<forall>e\<in>set (foodEntries s'). nonNegative e"
proof (cases "AddFoodEntrySchema_partial raw")
  case (Inl err)
  with assms show ?thesis by (simp add: foodRouter_updateFood_def)
next
  case (Inr f)
  with assms(1) have "foodEntries s' =
      map (\<lambda>e. if fe_id e = i \<and> fe_userId e = uid then updateFoodRow (now s) f e else e)
        (foodEntries s)"
    using AddFoodEntrySchema_partial_has_values [of raw f]
    by (auto simp: foodRouter_updateFood_def updateFoodEntry_def split: if_splits)
  with assms(2) Inr show ?thesis
    by (auto simp: updateFoodRow_nonNegative)
qed

text \<open>
  C2 fails on the code. An estimator reply of - 50 kcal and - 1 g of protein is a
  well-formed analysis object; \<open>analyzeImage\<close> and \<open>analyzeBarcode\<close> round the calories and
  store the entry as it is, negative calories and protein included.
\<close>

theorem analyze_stores_negative_values:
  "map_option (\<lambda>s. map (\<lambda>e. (fe_calories e, fe_protein e)) (foodEntries s))
      (snd (foodRouter_analyzeImage utcZone (Some emptyStore) 1 ''u'' noon 0 (LLMJson negativeAnalysis)))
     = Some [(- 50, - 1)]
   \<and> map_option (\<lambda>s. map (\<lambda>e. (fe_calories e, fe_protein e)) (foodEntries s))
      (snd (foodRouter_analyzeBarcode utcZone (Some emptyStore) 1 ''4006381333931'' noon 0
             (LLMJson negativeBarcode)))
     = Some [(- 50, - 1)]"
  by (simp add: foodRouter_analyzeImage_def foodRouter_analyzeBarcode_def readAnalysis_def
      addFoodEntry_def newFoodEntry_def updateDailySummary_def getFoodEntriesByDate_def
      upsertDailySummary_def getDailySummary_def inDay_def day_defs
      asTotals_def addTotals_def zeroTotals_def orElse_def emptyStore_def negativeAnalysis_def
      negativeBarcode_def Math_round_def)

section \<open>Failures of the nutrition estimator\<close>

text \<open>
  C9: when the estimator call throws, returns no content or returns content that is not
  JSON, \<open>calculateMacros\<close> (on a request its schema accepts) returns the macros of four
  zeros, while \<open>analyzeImage\<close> and \<open>analyzeBarcode\<close> throw the error on to the caller and
  leave the database as it was.
\<close>

theorem estimator_failure_paths:
  "(1 \<le> length nm \<longrightarrow>
      foodRouter_calculateMacros nm LLMThrows =
        Inr \<lparr> mc_calories = 0, mc_protein = 0, mc_carbs = 0, mc_fats = 0 \<rparr>
      \<and> foodRouter_calculateMacros nm LLMNoContent =
        Inr \<lparr> mc_calories = 0, mc_protein = 0, mc_carbs = 0, mc_fats = 0 \<rparr>
      \<and> foodRouter_calculateMacros nm LLMNotJson =
        Inr \<lparr> mc_calories = 0, mc_protein = 0, mc_carbs = 0, mc_fats = 0 \<rparr>)
   \<and> foodRouter_analyzeImage tz d uid url mt dt LLMThrows = (Inl LLMInvokeError, d)
   \<and> foodRouter_analyzeImage tz d uid url mt dt LLMNoContent = (Inl NoResponseFromLLM, d)
   \<and> foodRouter_analyzeImage tz d uid url mt dt LLMNotJson = (Inl JSONSyntaxError, d)
   \<and> foodRouter_analyzeBarcode tz d uid bc mt dt LLMThrows = (Inl LLMInvokeError, d)
   \<and> foodRouter_analyzeBarcode tz d uid bc mt dt LLMNoContent = (Inl NoResponseFromLLM, d)
   \<and> foodRouter_analyzeBarcode tz d uid bc mt dt LLMNotJson = (Inl JSONSyntaxError, d)"
  by (simp add: foodRouter_calculateMacros_def foodRouter_analyzeImage_def
      foodRouter_analyzeBarcode_def readAnalysis_def)

theorem estimator_failure_paths_witness:
  "foodRouter_calculateMacros ''rice'' LLMThrows =
        Inr \<lparr> mc_calories = 0, mc_protein = 0, mc_carbs = 0, mc_fats = 0 \<rparr>
   \<and> foodRouter_calculateMacros ''rice'' LLMNoContent =
        Inr \<lparr> mc_calories = 0, mc_protein = 0, mc_carbs = 0, mc_fats = 0 \<rparr>
   \<and> foodRouter_analyzeImage utcZone (Some sampleStore) 1 ''u'' noon 0 LLMNoContent
        = (Inl NoResponseFromLLM, Some sampleStore)
   \<and> foodRouter_analyzeBarcode utcZone (Some sampleStore) 1 ''4006381333931'' noon 0 LLMThrows
        = (Inl LLMInvokeError, Some sampleStore)"
proof -
  have "1 \<le> length ''rice''" by simp
  with estimator_failure_paths
         [of "''rice''" utcZone "Some sampleStore" 1 "''u''" noon 0 "''4006381333931''"]
  show ?thesis by blast
qed

section \<open>The reply of delete and update\<close>

text \<open>
  C10: with a database, \<open>deleteFood\<close> replies \<open>{success: true}\<close> for every id and caller, and
  so does \<open>updateFood\<close> on every request its schema accepts: whether a row matched does
  not show in the reply.
\<close>

theorem delete_update_always_success:
  "fst (foodRouter_deleteFood (Some s) uid i) = Inr \<lparr> success = True \<rparr>
   \<and> (AddFoodEntrySchema_partial raw = Inr f \<longrightarrow>
        fst (foodRouter_updateFood (Some s) uid i raw) = Inr \<lparr> success = True \<rparr>)"
proof (intro conjI impI)
  show "fst (foodRouter_deleteFood (Some s) uid i) = Inr \<lparr> success = True \<rparr>"
    by (simp add: foodRouter_deleteFood_def deleteFoodEntry_def)
next
  assume f: "AddFoodEntrySchema_partial raw = Inr f"
  then have "\<not> noFoodValues f"
    by (rule AddFoodEntrySchema_partial_has_values)
  with f show "fst (foodRouter_updateFood (Some s) uid i raw) = Inr \<lparr> success = True \<rparr>"
    by (simp add: foodRouter_updateFood_def updateFoodEntry_def)
qed

theorem delete_update_always_success_witness:
  "fst (foodRouter_deleteFood (Some sampleStore) 2 99) = Inr \<lparr> success = True \<rparr>
   \<and> fst (foodRouter_updateFood (Some sampleStore) 2 1 calories999) = Inr \<lparr> success = True \<rparr>
   \<and> snd (foodRouter_updateFood (Some sampleStore) 2 1 calories999) = Some sampleStore
   \<and> snd (foodRouter_deleteFood (Some sampleStore) 2 99) = Some sampleStore"
proof -
  have v: "AddFoodEntrySchema_partial calories999 =
      Inr \<lparr> ff_foodName = None, ff_mealTime = None, ff_calories = Some 999, ff_protein = None,
            ff_carbs = None, ff_fats = None, ff_quantity = Some 1, ff_unit = Some ''serving'',
            ff_imageUrl = None, ff_barcode = None, ff_source = None, ff_date = None \<rparr>"
    by (simp add: AddFoodEntrySchema_partial_def calories999_def noFoodFields_def optOk_def
        is_integer_def isSafeInteger_def MAX_SAFE_INTEGER_def orElse_def)
  from delete_update_always_success [of sampleStore 2 99]
  have a: "fst (foodRouter_deleteFood (Some sampleStore) 2 99) = Inr \<lparr> success = True \<rparr>"
    by blast
  from delete_update_always_success [of sampleStore 2 1 calories999] v
  have b: "fst (foodRouter_updateFood (Some sampleStore) 2 1 calories999) = Inr \<lparr> success = True \<rparr>"
    by blast
  have c: "snd (foodRouter_updateFood (Some sampleStore) 2 1 calories999) = Some sampleStore"
    by (simp add: update_defs)
  have d: "snd (foodRouter_deleteFood (Some sampleStore) 2 99) = Some sampleStore"
    by (simp add: foodRouter_deleteFood_def deleteFoodEntry_def sampleStore_def sampleEntry_def)
  from a b c d show ?thesis by simp
qed

end
